theory Spec2Isabelle
  imports Complex_Main
begin

section \<open>Time values and calendar dates\<close>

text \<open>
  A JavaScript \<^verbatim>\<open>Date\<close> holds a time value: an integral number of milliseconds since
  1970-01-01T00:00:00Z, or NaN (an Invalid Date). Time values are modelled as \<open>int\<close>;
  NaN is \<open>None\<close>. The workouts table stores \<^verbatim>\<open>date\<close> in a DATE column, which
  reaches the client as the text \<^verbatim>\<open>YYYY-MM-DD\<close>. For this date-only form
  \<^verbatim>\<open>new Date(text)\<close> is midnight UTC of that day; the day number is computed as
  ECMAScript's MakeDay does. Any other text is taken as an Invalid Date. The limit on
  the magnitude of a time value (8.64e15 ms) is not modelled: no clock reading and no
  date of four year digits comes near it.
\<close>

definition msPerDay :: int where
  "msPerDay = 24 * 60 * 60 * 1000"

definition DayFromYear :: "int \<Rightarrow> int" where
  "DayFromYear y =
     365 * (y - 1970) + (y - 1969) div 4 - (y - 1901) div 100 + (y - 1601) div 400"

definition InLeapYear :: "int \<Rightarrow> bool" where
  "InLeapYear y = (y mod 4 = 0 \<and> (y mod 100 \<noteq> 0 \<or> y mod 400 = 0))"

definition DaysInMonth :: "int \<Rightarrow> int \<Rightarrow> int" where
  "DaysInMonth y m =
     (if m = 2 then (if InLeapYear y then 29 else 28)
      else if m = 4 \<or> m = 6 \<or> m = 9 \<or> m = 11 then 30 else 31)"

fun DaysBeforeMonth :: "int \<Rightarrow> nat \<Rightarrow> int" where
  "DaysBeforeMonth y 0 = 0"
| "DaysBeforeMonth y (Suc k) = DaysBeforeMonth y k + DaysInMonth y (int (Suc k))"

definition MakeDay :: "int \<Rightarrow> int \<Rightarrow> int \<Rightarrow> int" where
  "MakeDay y m d = DayFromYear y + DaysBeforeMonth y (nat (m - 1)) + (d - 1)"

definition digit_of :: "char \<Rightarrow> int option" where
  "digit_of c =
     (let n = (of_char c :: nat) in if 48 \<le> n \<and> n \<le> 57 then Some (int n - 48) else None)"

fun number_of :: "int \<Rightarrow> string \<Rightarrow> int option" where
  "number_of acc [] = Some acc"
| "number_of acc (c # cs) =
     (case digit_of c of None \<Rightarrow> None | Some v \<Rightarrow> number_of (10 * acc + v) cs)"

definition parse_date_only :: "string \<Rightarrow> (int \<times> int \<times> int) option" where
  "parse_date_only s =
     (if length s = 10 \<and> s ! 4 = CHR ''-'' \<and> s ! 7 = CHR ''-'' then
        (case (number_of 0 (take 4 s), number_of 0 (take 2 (drop 5 s)),
               number_of 0 (drop 8 s)) of
           (Some y, Some m, Some d) \<Rightarrow>
             if 1 \<le> m \<and> m \<le> 12 \<and> 1 \<le> d \<and> d \<le> DaysInMonth y m then Some (y, m, d)
             else None
         | _ \<Rightarrow> None)
      else None)"

definition Date_parse :: "string \<Rightarrow> int option" where
  "Date_parse s =
     (case parse_date_only s of
        None \<Rightarrow> None
      | Some (y, m, d) \<Rightarrow> Some (MakeDay y m d * msPerDay))"

text \<open>
  \<^verbatim>\<open>new Date(w.date) >= bound\<close>: both sides are converted to their time values; a
  comparison with NaN is false.
\<close>

definition date_ge :: "int option \<Rightarrow> int \<Rightarrow> bool" where
  "date_ge a b = (case a of None \<Rightarrow> False | Some t \<Rightarrow> b \<le> t)"

section \<open>Texts\<close>

text \<open>
  A text that the user types (the name and notes of a workout or an exercise) is a
  JavaScript string: a sequence of UTF-16 code units, modelled as a list of their
  numbers. \<open>utf16\<close> writes an ASCII literal as such a text. Identifiers and the texts
  of dates are ASCII and are kept as \<open>string\<close>.
\<close>

type_synonym jstring = "nat list"

definition utf16 :: "string \<Rightarrow> jstring" where
  "utf16 s = map of_char s"

section \<open>Dashboard: the statistics\<close>

record Workout =
  w_id :: string
  w_name :: jstring
  w_date :: string
  w_notes :: "jstring option"

record Stats =
  totalWorkouts :: nat
  thisWeek :: nat
  thisMonth :: nat

text \<open>
  \<^verbatim>\<open>calculateStats\<close> reads the clock itself (\<^verbatim>\<open>new Date()\<close>) and hands the result to
  \<^verbatim>\<open>setStats\<close>. In the model the clock reading is the argument \<open>now\<close> and the value
  passed to \<^verbatim>\<open>setStats\<close> is returned.
\<close>

definition calculateStats :: "int \<Rightarrow> Workout list \<Rightarrow> Stats" where
  "calculateStats now workouts =
     (let weekAgo = now - 7 * 24 * 60 * 60 * 1000;
          monthAgo = now - 30 * 24 * 60 * 60 * 1000;
          week = length (filter (\<lambda>w. date_ge (Date_parse (w_date w)) weekAgo) workouts);
          month = length (filter (\<lambda>w. date_ge (Date_parse (w_date w)) monthAgo) workouts)
      in \<lparr>totalWorkouts = length workouts, thisWeek = week, thisMonth = month\<rparr>)"


text \<open>
  The specification's reading of the two windows, for comparison with the code: a workout
  counts when its calendar date is at least the calendar date of \<open>now\<close> less \<open>n\<close>
  days, whatever the time of day of \<open>now\<close>. Calendar dates are day numbers (days since
  1970-01-01, UTC).
\<close>

definition utc_day :: "int \<Rightarrow> int" where
  "utc_day t = t div msPerDay"

definition calendar_day :: "string \<Rightarrow> int option" where
  "calendar_day s =
     (case parse_date_only s of None \<Rightarrow> None | Some (y, m, d) \<Rightarrow> Some (MakeDay y m d))"

definition count_from :: "int \<Rightarrow> Workout list \<Rightarrow> nat" where
  "count_from d0 ws =
     length (filter (\<lambda>w. case calendar_day (w_date w) of None \<Rightarrow> False | Some d \<Rightarrow> d0 \<le> d) ws)"

definition spec_stats :: "int \<Rightarrow> Workout list \<Rightarrow> Stats" where
  "spec_stats now ws =
     \<lparr>totalWorkouts = length ws,
      thisWeek = count_from (utc_day now - 7) ws,
      thisMonth = count_from (utc_day now - 30) ws\<rparr>"

text \<open>
  The first calendar day that the code's comparison of instants lets into a window of
  \<open>n\<close> days: the day \<open>n\<close> days before today only when \<open>now\<close> is exactly midnight UTC,
  the day after it at any later time of day.
\<close>

definition first_day_counted :: "int \<Rightarrow> int \<Rightarrow> int" where
  "first_day_counted now n =
     (if now mod msPerDay = 0 then utc_day now - n else utc_day now - n + 1)"

definition dated :: "string \<Rightarrow> Workout" where
  "dated s = \<lparr>w_id = [], w_name = [], w_date = s, w_notes = None\<rparr>"

definition scenario_workouts :: "Workout list" where
  "scenario_workouts =
     [dated ''2025-01-30'', dated ''2025-01-25'', dated ''2025-01-01'', dated ''2024-12-01'']"

section \<open>The record store\<close>

text \<open>
  The tables, constraints, policies and trigger of the migration. An identifier drawn by
  \<^verbatim>\<open>gen_random_uuid()\<close> and the value of \<^verbatim>\<open>NOW()\<close> are arguments of the statement
  that uses them; \<open>uid\<close> is \<^verbatim>\<open>auth.uid()\<close>, the identity of the session, \<open>None\<close>
  when nobody is signed in. A DATE is a day number. A statement either applies as a whole
  or fails and leaves the store as it was.
\<close>

type_synonym uuid = string
type_synonym timestamp = int

record workout_row =
  wr_id :: uuid
  wr_user_id :: uuid
  wr_name :: jstring
  wr_date :: int
  wr_notes :: "jstring option"
  wr_created_at :: timestamp
  wr_updated_at :: timestamp

record exercise_row =
  er_id :: uuid
  er_workout_id :: uuid
  er_name :: jstring
  er_sets :: int
  er_reps :: int
  er_weight :: rat
  er_notes :: "jstring option"
  er_created_at :: timestamp

record store =
  tbl_workouts :: "workout_row list"
  tbl_exercises :: "exercise_row list"

datatype error =
    RlsViolation
  | UniqueViolation
  | NumericOutOfRange
  | RequestFailed string
  | TypeError
  | NotFoundError
  | AuthorizationError

definition owns :: "uuid option \<Rightarrow> workout_row \<Rightarrow> bool" where
  "owns uid w = (uid = Some (wr_user_id w))"

definition owns_workout :: "uuid option \<Rightarrow> store \<Rightarrow> uuid \<Rightarrow> bool" where
  "owns_workout uid st wid = (\<exists>w \<in> set (tbl_workouts st). wr_id w = wid \<and> owns uid w)"

definition workout_row_of ::
  "timestamp \<Rightarrow> uuid \<Rightarrow> uuid \<Rightarrow> jstring \<Rightarrow> jstring \<Rightarrow> workout_row" where
  "workout_row_of now new_id user_id name notes =
     \<lparr>wr_id = new_id, wr_user_id = user_id, wr_name = name,
      wr_date = now div msPerDay, wr_notes = Some notes,
      wr_created_at = now, wr_updated_at = now\<rparr>"

definition insert_workout ::
  "uuid option \<Rightarrow> timestamp \<Rightarrow> uuid \<Rightarrow> uuid \<Rightarrow> jstring \<Rightarrow> jstring \<Rightarrow> store
     \<Rightarrow> error + workout_row \<times> store" where
  "insert_workout uid now new_id user_id name notes st =
     (let row = workout_row_of now new_id user_id name notes
      in if \<not> owns uid row then Inl RlsViolation
         else if new_id \<in> set (map wr_id (tbl_workouts st)) then Inl UniqueViolation
         else Inr (row, st\<lparr>tbl_workouts := tbl_workouts st @ [row]\<rparr>))"

record exercise_input =
  xi_workout_id :: uuid
  xi_name :: jstring
  xi_sets :: int
  xi_reps :: int
  xi_weight :: rat
  xi_notes :: jstring

definition int4_ok :: "int \<Rightarrow> bool" where
  "int4_ok n = (- (2 ^ 31) \<le> n \<and> n < 2 ^ 31)"

definition round_2dp :: "rat \<Rightarrow> rat" where
  "round_2dp x = sgn x * of_int \<lfloor>\<bar>x\<bar> * 100 + 1 / 2\<rfloor> / 100"

definition numeric_10_2_ok :: "rat \<Rightarrow> bool" where
  "numeric_10_2_ok x = (\<bar>round_2dp x\<bar> < 10 ^ 8)"

definition exercise_row_of :: "timestamp \<Rightarrow> uuid \<Rightarrow> exercise_input \<Rightarrow> exercise_row" where
  "exercise_row_of now new_id x =
     \<lparr>er_id = new_id, er_workout_id = xi_workout_id x, er_name = xi_name x,
      er_sets = xi_sets x, er_reps = xi_reps x, er_weight = round_2dp (xi_weight x),
      er_notes = Some (xi_notes x), er_created_at = now\<rparr>"

definition insert_exercises ::
  "uuid option \<Rightarrow> timestamp \<Rightarrow> (nat \<Rightarrow> uuid) \<Rightarrow> exercise_input list \<Rightarrow> store \<Rightarrow> error + store" where
  "insert_exercises uid now new_ids xs st =
     (let ids = map new_ids [0 ..< length xs] in
      if \<exists>x \<in> set xs. \<not> (int4_ok (xi_sets x) \<and> int4_ok (xi_reps x) \<and> numeric_10_2_ok (xi_weight x))
        then Inl NumericOutOfRange
      else if \<exists>x \<in> set xs. \<not> owns_workout uid st (xi_workout_id x) then Inl RlsViolation
      else if \<not> distinct ids \<or> (\<exists>i \<in> set ids. i \<in> set (map er_id (tbl_exercises st)))
        then Inl UniqueViolation
      else Inr (st\<lparr>tbl_exercises := tbl_exercises st @ map2 (exercise_row_of now) ids xs\<rparr>))"

text \<open>
  The trigger function \<^verbatim>\<open>update_updated_at_column\<close>, run before each UPDATE of a
  workouts row, and an UPDATE of the name and notes of the row with a given id under the
  update policy. No page of the client issues an UPDATE.
\<close>

definition update_updated_at_column :: "timestamp \<Rightarrow> workout_row \<Rightarrow> workout_row" where
  "update_updated_at_column now new = new\<lparr>wr_updated_at := now\<rparr>"

definition update_workout ::
  "uuid option \<Rightarrow> timestamp \<Rightarrow> uuid \<Rightarrow> jstring \<Rightarrow> jstring option \<Rightarrow> store \<Rightarrow> store" where
  "update_workout uid now wid name notes st =
     st\<lparr>tbl_workouts :=
          map (\<lambda>w. if wr_id w = wid \<and> owns uid w
                   then update_updated_at_column now (w\<lparr>wr_name := name, wr_notes := notes\<rparr>)
                   else w)
            (tbl_workouts st)\<rparr>"

text \<open>
  Reading: the select policies show a session its own workouts, and the exercises of its
  own workouts. Workouts are ordered by date, latest first; rows of one date keep their
  stored order.
\<close>

definition select_workouts :: "uuid option \<Rightarrow> nat option \<Rightarrow> store \<Rightarrow> workout_row list" where
  "select_workouts uid limit st =
     (let rows = sort_key (\<lambda>w. - wr_date w) (filter (owns uid) (tbl_workouts st))
      in case limit of None \<Rightarrow> rows | Some n \<Rightarrow> take n rows)"

definition select_exercises :: "uuid option \<Rightarrow> uuid \<Rightarrow> store \<Rightarrow> exercise_row list" where
  "select_exercises uid wid st =
     filter (\<lambda>e. er_workout_id e = wid \<and> owns_workout uid st (er_workout_id e)) (tbl_exercises st)"

text \<open>
  Modelled from the spec: \<^verbatim>\<open>deleteWorkout\<close>. No page of the client deletes a workout;
  the operation is the specification's: it fails with \<open>NotFoundError\<close> when the id
  resolves to no workout, with \<open>AuthorizationError\<close> when the workout is not the
  caller's, and otherwise deletes the workout. The cascade is the schema's:
  \<^verbatim>\<open>workout_id ... REFERENCES public.workouts(id) ON DELETE CASCADE\<close>.
\<close>

definition deleteWorkout :: "uuid option \<Rightarrow> uuid \<Rightarrow> store \<Rightarrow> error + store" where
  "deleteWorkout uid wid st =
     (if wid \<notin> set (map wr_id (tbl_workouts st)) then Inl NotFoundError
      else if \<not> owns_workout uid st wid then Inl AuthorizationError
      else Inr \<lparr>tbl_workouts = filter (\<lambda>w. wr_id w \<noteq> wid) (tbl_workouts st),
               tbl_exercises = filter (\<lambda>e. er_workout_id e \<noteq> wid) (tbl_exercises st)\<rparr>)"

text \<open>\<^verbatim>\<open>getExercisesFor\<close> is the per-workout query of the history page.\<close>

definition getExercisesFor :: "uuid option \<Rightarrow> uuid \<Rightarrow> store \<Rightarrow> exercise_row list" where
  "getExercisesFor uid wid st = select_exercises uid wid st"

text \<open>The foreign key of \<^verbatim>\<open>exercises.workout_id\<close>: every exercise has its workout.\<close>

definition fk_ok :: "store \<Rightarrow> bool" where
  "fk_ok st = (\<forall>e \<in> set (tbl_exercises st). er_workout_id e \<in> set (map wr_id (tbl_workouts st)))"

definition empty_store :: store where
  "empty_store = \<lparr>tbl_workouts = [], tbl_exercises = []\<rparr>"


section \<open>What the client receives\<close>

text \<open>
  A row reaches the client as JSON, a DATE as its text. The day number is turned back
  into year, month and day, and written with a year of at least four digits.
\<close>

definition civil_from_days :: "int \<Rightarrow> int \<times> int \<times> int" where
  "civil_from_days n =
     (let z = n + 719468;
          era = z div 146097;
          doe = z - era * 146097;
          yoe = (doe - doe div 1460 + doe div 36524 - doe div 146096) div 365;
          doy = doe - (365 * yoe + yoe div 4 - yoe div 100);
          mp = (5 * doy + 2) div 153;
          d = doy - (153 * mp + 2) div 5 + 1;
          m = (if mp < 10 then mp + 3 else mp - 9);
          y = yoe + era * 400 + (if m \<le> 2 then 1 else 0)
      in (y, m, d))"

fun digits :: "nat \<Rightarrow> nat \<Rightarrow> string" where
  "digits 0 n = []"
| "digits (Suc k) n = digits k (n div 10) @ [char_of (48 + n mod 10)]"

definition year_text :: "int \<Rightarrow> string" where
  "year_text y =
     (let s = digits 7 (nat y) in drop (min 3 (length (takeWhile (\<lambda>c. c = CHR ''0'') s))) s)"

definition date_text :: "int \<Rightarrow> string" where
  "date_text n =
     (case civil_from_days n of
        (y, m, d) \<Rightarrow>
          if 1 \<le> y then year_text y @ ''-'' @ digits 2 (nat m) @ ''-'' @ digits 2 (nat d)
          else year_text (1 - y) @ ''-'' @ digits 2 (nat m) @ ''-'' @ digits 2 (nat d) @ '' BC'')"

definition workout_json :: "workout_row \<Rightarrow> Workout" where
  "workout_json r =
     \<lparr>w_id = wr_id r, w_name = wr_name r, w_date = date_text (wr_date r), w_notes = wr_notes r\<rparr>"

text \<open>
  A request to the store either fails with a message (\<open>fault\<close>, the \<^verbatim>\<open>error\<close> of the
  response) and applies nothing, or carries the statement's own result.
\<close>

definition request :: "string option \<Rightarrow> error + 'a \<Rightarrow> error + 'a" where
  "request fault r = (case fault of Some msg \<Rightarrow> Inl (RequestFailed msg) | None \<Rightarrow> r)"

section \<open>Dashboard: loading the recent workouts\<close>

record Dashboard =
  d_workouts :: "Workout list"
  d_stats :: Stats
  d_loading :: bool
  d_toast :: "error option"

definition initial_Dashboard :: Dashboard where
  "initial_Dashboard =
     \<lparr>d_workouts = [], d_stats = \<lparr>totalWorkouts = 0, thisWeek = 0, thisMonth = 0\<rparr>,
      d_loading = True, d_toast = None\<rparr>"

definition fetchWorkouts ::
  "uuid option \<Rightarrow> string option \<Rightarrow> int \<Rightarrow> store \<Rightarrow> Dashboard \<Rightarrow> Dashboard" where
  "fetchWorkouts uid fault now st dash =
     (case request fault (Inr (select_workouts uid (Some 5) st)) of
        Inl e \<Rightarrow> dash\<lparr>d_loading := False, d_toast := Some e\<rparr>
      | Inr rows \<Rightarrow>
          (let data = map workout_json rows
           in dash\<lparr>d_workouts := data, d_stats := calculateStats now data, d_loading := False\<rparr>))"

section \<open>History: the list and its expansion\<close>

record Exercise =
  x_id :: string
  x_name :: jstring
  x_sets :: int
  x_reps :: int
  x_weight :: rat
  x_notes :: "jstring option"

record HistoryWorkout =
  h_id :: string
  h_name :: jstring
  h_date :: string
  h_notes :: "jstring option"
  h_exercises :: "Exercise list option"
  h_expanded :: "bool option"

definition exercise_json :: "exercise_row \<Rightarrow> Exercise" where
  "exercise_json r =
     \<lparr>x_id = er_id r, x_name = er_name r, x_sets = er_sets r, x_reps = er_reps r,
      x_weight = er_weight r, x_notes = er_notes r\<rparr>"

text \<open>
  The history page reads every workout of the session, then the exercises of each; a
  failed exercise query leaves that workout with an empty list. \<open>ex_fault\<close> tells, for
  a workout id, whether its exercise query fails.
\<close>

definition fetchWorkouts_History ::
  "uuid option \<Rightarrow> string option \<Rightarrow> (uuid \<Rightarrow> bool) \<Rightarrow> store \<Rightarrow> error + HistoryWorkout list" where
  "fetchWorkouts_History uid fault ex_fault st =
     (case request fault (Inr (select_workouts uid None st)) of
        Inl e \<Rightarrow> Inl e
      | Inr rows \<Rightarrow>
          Inr (map (\<lambda>workout.
                 \<lparr>h_id = wr_id workout, h_name = wr_name workout,
                  h_date = date_text (wr_date workout), h_notes = wr_notes workout,
                  h_exercises =
                    Some (if ex_fault (wr_id workout) then []
                          else map exercise_json (getExercisesFor uid (wr_id workout) st)),
                  h_expanded = Some False\<rparr>) rows))"

text \<open>
  \<^verbatim>\<open>expanded\<close> is an optional field: absent it is \<open>None\<close>, and \<^verbatim>\<open>!w.expanded\<close> of an
  absent flag is \<^verbatim>\<open>true\<close>.
\<close>

definition truthy :: "bool option \<Rightarrow> bool" where
  "truthy b = (case b of None \<Rightarrow> False | Some v \<Rightarrow> v)"

definition toggleWorkout :: "string \<Rightarrow> HistoryWorkout list \<Rightarrow> HistoryWorkout list" where
  "toggleWorkout i workouts =
     map (\<lambda>w. if h_id w = i then w\<lparr>h_expanded := Some (\<not> truthy (h_expanded w))\<rparr> else w) workouts"

text \<open>
  The lists that the history page can hold: its state starts empty and is written only
  with the result of a successful \<^verbatim>\<open>fetchWorkouts\<close> and by \<^verbatim>\<open>toggleWorkout\<close>.
\<close>

inductive history_state :: "HistoryWorkout list \<Rightarrow> bool" where
  initial: "history_state []"
| fetched: "fetchWorkouts_History uid fault ex_fault st = Inr ws \<Longrightarrow> history_state ws"
| toggled: "history_state ws \<Longrightarrow> history_state (toggleWorkout i ws)"

section \<open>The workout form and saving\<close>

record ExerciseForm =
  f_id :: string
  f_name :: jstring
  f_sets :: int
  f_reps :: int
  f_weight :: rat
  f_notes :: jstring

record WorkoutPage =
  workoutName :: jstring
  workoutNotes :: jstring
  page_exercises :: "ExerciseForm list"

text \<open>
  \<^verbatim>\<open>trim\<close> removes white space and line terminators at both ends. These are, as
  ECMAScript lists them: tab, line feed, vertical tab, form feed, carriage return, space,
  no-break space (U+00A0), U+1680, U+2000 to U+200A, the line and paragraph separators
  (U+2028, U+2029), U+202F, U+205F, U+3000 and the byte order mark (U+FEFF). Each is one
  code unit.
\<close>

definition is_space :: "nat \<Rightarrow> bool" where
  "is_space c =
     (c \<in> set [0x09, 0x0A, 0x0B, 0x0C, 0x0D, 0x20, 0xA0, 0x1680, 0x2028, 0x2029, 0x202F,
                0x205F, 0x3000, 0xFEFF] \<or>
      (0x2000 \<le> c \<and> c \<le> 0x200A))"

definition trim :: "jstring \<Rightarrow> jstring" where
  "trim s = rev (dropWhile is_space (rev (dropWhile is_space s)))"

text \<open>
  What \<^verbatim>\<open>saveWorkout\<close> tells the user: the two validation toasts, shown before any
  request is made; the toast for an error caught from the requests, with the error; the
  toast for success, after which the page navigates away.
\<close>

datatype save_outcome = NameRequired | ExerciseRequired | SaveError error | Saved

text \<open>
  The clock readings, identifier draws and faults of the two requests that
  \<^verbatim>\<open>saveWorkout\<close> makes.
\<close>

record requests =
  rq_workout_fault :: "string option"
  rq_workout_now :: timestamp
  rq_workout_id :: uuid
  rq_exercises_fault :: "string option"
  rq_exercises_now :: timestamp
  rq_exercise_ids :: "nat \<Rightarrow> uuid"

definition exercisesData :: "uuid \<Rightarrow> ExerciseForm list \<Rightarrow> exercise_input list" where
  "exercisesData wid exs =
     map (\<lambda>ex. \<lparr>xi_workout_id = wid, xi_name = f_name ex, xi_sets = f_sets ex,
                xi_reps = f_reps ex, xi_weight = f_weight ex, xi_notes = f_notes ex\<rparr>) exs"

definition saveWorkout ::
  "uuid option \<Rightarrow> requests \<Rightarrow> WorkoutPage \<Rightarrow> store \<Rightarrow> save_outcome \<times> store" where
  "saveWorkout user rq page st =
     (if trim (workoutName page) = [] then (NameRequired, st)
      else if length (page_exercises page) = 0 then (ExerciseRequired, st)
      else
        (case user of
           None \<Rightarrow> (SaveError TypeError, st)
         | Some user_id \<Rightarrow>
             (case request (rq_workout_fault rq)
                     (insert_workout user (rq_workout_now rq) (rq_workout_id rq) user_id
                        (workoutName page) (workoutNotes page) st) of
                Inl workoutError \<Rightarrow> (SaveError workoutError, st)
              | Inr (workout, st1) \<Rightarrow>
                  (case request (rq_exercises_fault rq)
                          (insert_exercises user (rq_exercises_now rq) (rq_exercise_ids rq)
                             (exercisesData (wr_id workout) (page_exercises page)) st1) of
                     Inl exercisesError \<Rightarrow> (SaveError exercisesError, st1)
                   | Inr st2 \<Rightarrow> (Saved, st2)))))"

section \<open>Sequences of mutations\<close>

datatype mutation =
    CreateWorkout timestamp uuid uuid jstring jstring
  | AddExercises timestamp "nat \<Rightarrow> uuid" "exercise_input list"
  | DeleteWorkout uuid

fun apply_mutation :: "uuid option \<Rightarrow> mutation \<Rightarrow> store \<Rightarrow> error + store" where
  "apply_mutation uid (CreateWorkout now new_id user_id name notes) st =
     (case insert_workout uid now new_id user_id name notes st of
        Inl e \<Rightarrow> Inl e | Inr (row, st') \<Rightarrow> Inr st')"
| "apply_mutation uid (AddExercises now new_ids xs) st = insert_exercises uid now new_ids xs st"
| "apply_mutation uid (DeleteWorkout wid) st = deleteWorkout uid wid st"

fun apply_mutations :: "(uuid option \<times> mutation) list \<Rightarrow> store \<Rightarrow> error + store" where
  "apply_mutations [] st = Inr st"
| "apply_mutations ((uid, m) # ms) st =
     (case apply_mutation uid m st of Inl e \<Rightarrow> Inl e | Inr st' \<Rightarrow> apply_mutations ms st')"

section \<open>Example data\<close>

definition example_requests :: requests where
  "example_requests =
     \<lparr>rq_workout_fault = None, rq_workout_now = 1738324800000, rq_workout_id = ''w1'',
      rq_exercises_fault = None, rq_exercises_now = 1738324800500,
      rq_exercise_ids = (\<lambda>i. replicate (Suc i) CHR ''e'')\<rparr>"

definition example_page :: "jstring \<Rightarrow> jstring \<Rightarrow> int \<Rightarrow> int \<Rightarrow> rat \<Rightarrow> WorkoutPage" where
  "example_page name ex_name n_sets n_reps kg =
     \<lparr>workoutName = name, workoutNotes = [],
      page_exercises =
        [\<lparr>f_id = ''x'', f_name = ex_name, f_sets = n_sets, f_reps = n_reps, f_weight = kg,
          f_notes = []\<rparr>]\<rparr>"

definition example_workout :: workout_row where
  "example_workout =
     \<lparr>wr_id = ''w1'', wr_user_id = ''u1'', wr_name = utf16 ''Legs'', wr_date = 20119,
      wr_notes = Some [], wr_created_at = 1738324800000, wr_updated_at = 1738324800000\<rparr>"

definition example_exercise :: exercise_row where
  "example_exercise =
     \<lparr>er_id = ''e'', er_workout_id = ''w1'', er_name = [], er_sets = 3, er_reps = 10,
      er_weight = 60, er_notes = Some [], er_created_at = 1738324800500\<rparr>"

definition example_store :: store where
  "example_store = \<lparr>tbl_workouts = [example_workout], tbl_exercises = [example_exercise]\<rparr>"

definition example_input :: exercise_input where
  "example_input =
     \<lparr>xi_workout_id = ''w1'', xi_name = [], xi_sets = 3, xi_reps = 10, xi_weight = 60,
      xi_notes = []\<rparr>"

definition example_mutations :: "(uuid option \<times> mutation) list" where
  "example_mutations =
     [(Some ''u1'', CreateWorkout 1738324800000 ''w1'' ''u1'' (utf16 ''Legs'') []),
      (Some ''u1'', AddExercises 1738324800500 (\<lambda>i. replicate (Suc i) CHR ''e'') [example_input])]"

definition busy_store :: store where
  "busy_store =
     \<lparr>tbl_workouts =
        map (\<lambda>i. example_workout\<lparr>wr_id := replicate (Suc i) CHR ''w'', wr_date := 20119 - int i\<rparr>)
          [0 ..< 6],
      tbl_exercises = []\<rparr>"

definition example_history :: "HistoryWorkout list" where
  "example_history =
     [\<lparr>h_id = ''w1'', h_name = utf16 ''Legs'', h_date = ''2025-01-31'', h_notes = Some [],
       h_exercises = Some [exercise_json example_exercise], h_expanded = Some False\<rparr>]"

section \<open>Helper facts: time windows\<close>

lemma Date_parse_calendar_day:
  "Date_parse s = (case calendar_day s of None \<Rightarrow> None | Some d \<Rightarrow> Some (d * msPerDay))"
  by (simp add: Date_parse_def calendar_day_def split: option.splits prod.splits)

lemma msPerDay_pos: "0 < msPerDay"
  by (simp add: msPerDay_def)

lemma day_bound_iff:
  "(now - n * msPerDay \<le> d * msPerDay) \<longleftrightarrow> first_day_counted now n \<le> d"
proof -
  define q where "q = now div msPerDay"
  define r where "r = now mod msPerDay"
  have now: "now = q * msPerDay + r" and r0: "0 \<le> r" and r1: "r < msPerDay"
    using msPerDay_pos by (simp_all add: q_def r_def)
  have eq: "(now - n * msPerDay \<le> d * msPerDay) \<longleftrightarrow> r \<le> (d + n - q) * msPerDay"
    by (simp add: now algebra_simps)
  show ?thesis
  proof (cases "r = 0")
    case True
    have "(0 \<le> (d + n - q) * msPerDay) \<longleftrightarrow> 0 \<le> d + n - q"
      using msPerDay_pos by (simp add: zero_le_mult_iff)
    with True eq show ?thesis
      by (auto simp add: first_day_counted_def utc_day_def q_def[symmetric] r_def[symmetric])
  next
    case False
    with r0 have rpos: "0 < r" by simp
    have "(r \<le> (d + n - q) * msPerDay) \<longleftrightarrow> 1 \<le> d + n - q"
    proof
      assume a: "r \<le> (d + n - q) * msPerDay"
      show "1 \<le> d + n - q"
      proof (rule ccontr)
        assume "\<not> 1 \<le> d + n - q"
        then have "d + n - q \<le> 0" by simp
        then have "(d + n - q) * msPerDay \<le> 0"
          using msPerDay_pos by (simp add: mult_le_0_iff)
        with a rpos show False by simp
      qed
    next
      assume "1 \<le> d + n - q"
      then have "1 * msPerDay \<le> (d + n - q) * msPerDay"
        using msPerDay_pos by (intro mult_right_mono) simp_all
      with r1 show "r \<le> (d + n - q) * msPerDay" by simp
    qed
    with False eq show ?thesis
      by (auto simp add: first_day_counted_def utc_day_def q_def[symmetric] r_def[symmetric])
  qed
qed

lemma date_ge_day:
  "date_ge (Date_parse s) (now - n * msPerDay) \<longleftrightarrow>
     (case calendar_day s of None \<Rightarrow> False | Some d \<Rightarrow> first_day_counted now n \<le> d)"
  by (simp add: date_ge_def Date_parse_calendar_day day_bound_iff split: option.splits)

lemma calculateStats_days:
  "calculateStats now ws =
     \<lparr>totalWorkouts = length ws,
      thisWeek = count_from (first_day_counted now 7) ws,
      thisMonth = count_from (first_day_counted now 30) ws\<rparr>"
proof -
  have w: "now - 7 * 24 * 60 * 60 * 1000 = now - 7 * msPerDay"
    and m: "now - 30 * 24 * 60 * 60 * 1000 = now - 30 * msPerDay"
    by (simp_all add: msPerDay_def)
  show ?thesis
    unfolding calculateStats_def Let_def w m date_ge_day count_from_def by simp
qed

lemma scenario_days:
  "map (\<lambda>w. calendar_day (w_date w)) scenario_workouts = [Some 20118, Some 20113, Some 20089, Some 20058]"
  by code_simp

lemma scenario_length: "length scenario_workouts = 4"
  by (simp add: scenario_workouts_def)

lemma count_from_scenario:
  "count_from d0 scenario_workouts =
     (if d0 \<le> 20118 then 1 else 0) + (if d0 \<le> 20113 then 1 else 0) +
     (if d0 \<le> 20089 then 1 else 0) + (if d0 \<le> 20058 then 1 else 0)"
proof -
  have "count_from d0 scenario_workouts =
      length (filter (\<lambda>x. case x of None \<Rightarrow> False | Some d \<Rightarrow> d0 \<le> d)
         (map (\<lambda>w. calendar_day (w_date w)) scenario_workouts))"
    by (simp add: count_from_def filter_map comp_def)
  then show ?thesis
    unfolding scenario_days by simp
qed

lemma length_filter_mono:
  "(\<And>x. P x \<Longrightarrow> Q x) \<Longrightarrow> length (filter P xs) \<le> length (filter Q xs)"
  by (induction xs) auto

lemma calculateStats_ordered:
  "thisWeek (calculateStats now ws) \<le> thisMonth (calculateStats now ws) \<and>
   thisMonth (calculateStats now ws) \<le> totalWorkouts (calculateStats now ws)"
proof -
  have "length (filter (\<lambda>w. date_ge (Date_parse (w_date w)) (now - 7 * 24 * 60 * 60 * 1000)) ws)
      \<le> length (filter (\<lambda>w. date_ge (Date_parse (w_date w)) (now - 30 * 24 * 60 * 60 * 1000)) ws)"
    by (rule length_filter_mono) (auto simp: date_ge_def split: option.splits)
  then show ?thesis
    by (simp add: calculateStats_def Let_def)
qed

lemma select_workouts_limit: "length (select_workouts uid (Some n) st) \<le> n"
  by (simp add: select_workouts_def Let_def)

section \<open>Helper facts: the store\<close>

lemma insert_workout_Inr:
  "insert_workout uid now new_id user_id name notes st = Inr (row, st') \<Longrightarrow>
     uid = Some user_id \<and> new_id \<notin> set (map wr_id (tbl_workouts st)) \<and>
     row = \<lparr>wr_id = new_id, wr_user_id = user_id, wr_name = name,
            wr_date = now div msPerDay, wr_notes = Some notes,
            wr_created_at = now, wr_updated_at = now\<rparr> \<and>
     tbl_workouts st' = tbl_workouts st @ [row] \<and> tbl_exercises st' = tbl_exercises st"
  by (auto simp: insert_workout_def workout_row_of_def Let_def owns_def split: if_splits)

lemma insert_exercises_Inr:
  "insert_exercises uid now new_ids xs st = Inr st' \<Longrightarrow>
     tbl_workouts st' = tbl_workouts st \<and>
     tbl_exercises st' =
       tbl_exercises st @ map2 (exercise_row_of now) (map new_ids [0 ..< length xs]) xs \<and>
     (\<forall>x \<in> set xs. owns_workout uid st (xi_workout_id x))"
  by (auto simp: insert_exercises_def Let_def split: if_splits)

lemma deleteWorkout_Inr:
  "deleteWorkout uid wid st = Inr st' \<Longrightarrow>
     tbl_workouts st' = filter (\<lambda>w. wr_id w \<noteq> wid) (tbl_workouts st) \<and>
     tbl_exercises st' = filter (\<lambda>e. er_workout_id e \<noteq> wid) (tbl_exercises st)"
  by (auto simp: deleteWorkout_def split: if_splits)

lemma request_Inr: "request fault r = Inr v \<Longrightarrow> fault = None \<and> r = Inr v"
  by (auto simp: request_def split: option.splits)

lemma owns_workout_exists: "owns_workout uid st wid \<Longrightarrow> wid \<in> wr_id ` set (tbl_workouts st)"
  by (auto simp: owns_workout_def)

lemma er_workout_id_row [simp]: "er_workout_id (exercise_row_of now i x) = xi_workout_id x"
  by (simp add: exercise_row_of_def)

lemma fk_insert_workout:
  "fk_ok st \<Longrightarrow> insert_workout uid now new_id user_id name notes st = Inr (row, st') \<Longrightarrow> fk_ok st'"
  by (drule insert_workout_Inr) (auto simp: fk_ok_def)

lemma fk_insert_exercises:
  assumes "fk_ok st" and "insert_exercises uid now new_ids xs st = Inr st'"
  shows "fk_ok st'"
proof -
  note r = insert_exercises_Inr [OF assms(2)]
  have new: "er_workout_id e \<in> set (map wr_id (tbl_workouts st))"
    if "e \<in> set (map2 (exercise_row_of now) (map new_ids [0 ..< length xs]) xs)" for e
  proof -
    from that obtain i x where "x \<in> set xs" and "e = exercise_row_of now i x"
      by (auto dest!: set_zip_rightD simp: in_set_zip)
    with r show ?thesis
      by (auto dest: owns_workout_exists)
  qed
  show ?thesis
    unfolding fk_ok_def
  proof
    fix e assume "e \<in> set (tbl_exercises st')"
    with r have "e \<in> set (tbl_exercises st) \<or>
        e \<in> set (map2 (exercise_row_of now) (map new_ids [0 ..< length xs]) xs)"
      by auto
    with assms(1) new r show "er_workout_id e \<in> set (map wr_id (tbl_workouts st'))"
      by (auto simp: fk_ok_def)
  qed
qed

lemma fk_deleteWorkout:
  "fk_ok st \<Longrightarrow> deleteWorkout uid wid st = Inr st' \<Longrightarrow> fk_ok st'"
  by (drule deleteWorkout_Inr) (auto simp: fk_ok_def)

lemma fk_apply_mutation:
  "fk_ok st \<Longrightarrow> apply_mutation uid m st = Inr st' \<Longrightarrow> fk_ok st'"
  by (cases m)
     (auto split: sum.splits prod.splits
           dest: fk_insert_workout fk_insert_exercises fk_deleteWorkout)

lemma fk_apply_mutations:
  "fk_ok st \<Longrightarrow> apply_mutations ms st = Inr st' \<Longrightarrow> fk_ok st'"
proof (induction ms arbitrary: st)
  case Nil
  then show ?case by simp
next
  case (Cons a ms)
  obtain uid m where a: "a = (uid, m)" by (cases a)
  from Cons.prems(2) obtain st1 where s1: "apply_mutation uid m st = Inr st1"
    and s2: "apply_mutations ms st1 = Inr st'"
    by (auto simp: a split: sum.splits)
  from fk_apply_mutation [OF Cons.prems(1) s1] Cons.IH s2 show ?case by blast
qed

lemma fk_saveWorkout: "fk_ok st \<Longrightarrow> fk_ok (snd (saveWorkout user rq page st))"
  by (auto simp: saveWorkout_def split: option.splits sum.splits prod.splits
           dest!: request_Inr dest: fk_insert_workout fk_insert_exercises)

lemma cascade_empty:
  "deleteWorkout uid wid st = Inr st' \<Longrightarrow> getExercisesFor uid' wid st' = []"
  by (drule deleteWorkout_Inr) (auto simp: getExercisesFor_def select_exercises_def filter_empty_conv)

lemma saveWorkout_blank_name:
  "trim (workoutName page) = [] \<Longrightarrow> saveWorkout user rq page st = (NameRequired, st)"
  by (simp add: saveWorkout_def)

lemma map2_exercise_rows:
  "length ids = length fs \<Longrightarrow>
     map (\<lambda>e. (er_name e, er_sets e, er_reps e, er_weight e))
       (map2 (exercise_row_of now) ids (exercisesData wid fs)) =
     map (\<lambda>f. (f_name f, f_sets f, f_reps f, round_2dp (f_weight f))) fs"
  by (induction ids fs rule: list_induct2) (simp_all add: exercisesData_def exercise_row_of_def)

lemma insert_exercises_ok:
  assumes "\<forall>x \<in> set xs. int4_ok (xi_sets x) \<and> int4_ok (xi_reps x) \<and> numeric_10_2_ok (xi_weight x)"
    and "\<forall>x \<in> set xs. owns_workout uid st (xi_workout_id x)"
    and "distinct (map new_ids [0 ..< length xs])"
    and "\<forall>i < length xs. new_ids i \<notin> set (map er_id (tbl_exercises st))"
  shows "insert_exercises uid now new_ids xs st =
     Inr (st\<lparr>tbl_exercises :=
            tbl_exercises st @ map2 (exercise_row_of now) (map new_ids [0 ..< length xs]) xs\<rparr>)"
proof -
  have c1: "\<not> (\<exists>x \<in> set xs.
      \<not> (int4_ok (xi_sets x) \<and> int4_ok (xi_reps x) \<and> numeric_10_2_ok (xi_weight x)))"
    using assms(1) by blast
  have c2: "\<not> (\<exists>x \<in> set xs. \<not> owns_workout uid st (xi_workout_id x))"
    using assms(2) by blast
  have c3: "\<not> (\<not> distinct (map new_ids [0 ..< length xs]) \<or>
      (\<exists>i \<in> set (map new_ids [0 ..< length xs]). i \<in> set (map er_id (tbl_exercises st))))"
    using assms(3,4) by auto
  show ?thesis
    unfolding insert_exercises_def Let_def using c1 c2 c3 by simp
qed

lemma insert_exercises_out_of_range:
  "\<exists>x \<in> set xs. \<not> (int4_ok (xi_sets x) \<and> int4_ok (xi_reps x) \<and> numeric_10_2_ok (xi_weight x))
     \<Longrightarrow> insert_exercises uid now new_ids xs st = Inl NumericOutOfRange"
  by (simp add: insert_exercises_def Let_def)

lemma insert_workout_ok:
  "new_id \<notin> set (map wr_id (tbl_workouts st)) \<Longrightarrow>
     insert_workout (Some u) now new_id u name notes st =
       Inr (workout_row_of now new_id u name notes,
            st\<lparr>tbl_workouts := tbl_workouts st @ [workout_row_of now new_id u name notes]\<rparr>)"
  by (simp add: insert_workout_def Let_def owns_def workout_row_of_def)

lemma exercisesData_length [simp]: "length (exercisesData wid fs) = length fs"
  by (simp add: exercisesData_def)

lemma saveWorkout_steps:
  assumes "trim (workoutName page) \<noteq> []" and "page_exercises page \<noteq> []"
    and "rq_workout_fault rq = None"
    and "rq_workout_id rq \<notin> set (map wr_id (tbl_workouts st))"
  shows "saveWorkout (Some u) rq page st =
     (let workout = workout_row_of (rq_workout_now rq) (rq_workout_id rq) u
                      (workoutName page) (workoutNotes page);
          st1 = st\<lparr>tbl_workouts := tbl_workouts st @ [workout]\<rparr>
      in case request (rq_exercises_fault rq)
                (insert_exercises (Some u) (rq_exercises_now rq) (rq_exercise_ids rq)
                   (exercisesData (wr_id workout) (page_exercises page)) st1) of
           Inl e \<Rightarrow> (SaveError e, st1)
         | Inr st2 \<Rightarrow> (Saved, st2))"
  using assms
  by (simp add: saveWorkout_def request_def insert_workout_ok Let_def split: sum.splits)

lemma batch_ok:
  assumes "distinct (map new_ids [0 ..< length fs])"
    and "\<forall>i < length fs. new_ids i \<notin> set (map er_id (tbl_exercises st))"
    and "\<forall>f \<in> set fs. int4_ok (f_sets f) \<and> int4_ok (f_reps f) \<and> numeric_10_2_ok (f_weight f)"
  shows "insert_exercises (Some u) now new_ids
           (exercisesData (wr_id (workout_row_of now' new_id u name notes)) fs)
           (st\<lparr>tbl_workouts := tbl_workouts st @ [workout_row_of now' new_id u name notes]\<rparr>) =
     Inr (st\<lparr>tbl_workouts := tbl_workouts st @ [workout_row_of now' new_id u name notes],
             tbl_exercises :=
               tbl_exercises st @
               map2 (exercise_row_of now) (map new_ids [0 ..< length fs])
                 (exercisesData new_id fs)\<rparr>)"
proof -
  have id: "wr_id (workout_row_of now' new_id u name notes) = new_id"
    by (simp add: workout_row_of_def)
  have own: "owns_workout (Some u)
      (st\<lparr>tbl_workouts := tbl_workouts st @ [workout_row_of now' new_id u name notes]\<rparr>) new_id"
    by (simp add: owns_workout_def owns_def workout_row_of_def)
  have "insert_exercises (Some u) now new_ids (exercisesData new_id fs)
           (st\<lparr>tbl_workouts := tbl_workouts st @ [workout_row_of now' new_id u name notes]\<rparr>) =
     Inr ((st\<lparr>tbl_workouts := tbl_workouts st @ [workout_row_of now' new_id u name notes]\<rparr>)
           \<lparr>tbl_exercises :=
               tbl_exercises (st\<lparr>tbl_workouts := tbl_workouts st @ [workout_row_of now' new_id u name notes]\<rparr>) @
               map2 (exercise_row_of now) (map new_ids [0 ..< length (exercisesData new_id fs)])
                 (exercisesData new_id fs)\<rparr>)"
  proof (rule insert_exercises_ok)
    show "\<forall>x \<in> set (exercisesData new_id fs).
        int4_ok (xi_sets x) \<and> int4_ok (xi_reps x) \<and> numeric_10_2_ok (xi_weight x)"
      using assms(3) by (auto simp: exercisesData_def)
    show "\<forall>x \<in> set (exercisesData new_id fs).
        owns_workout (Some u)
          (st\<lparr>tbl_workouts := tbl_workouts st @ [workout_row_of now' new_id u name notes]\<rparr>)
          (xi_workout_id x)"
      using own by (auto simp: exercisesData_def)
    show "distinct (map new_ids [0 ..< length (exercisesData new_id fs)])"
      using assms(1) by simp
    show "\<forall>i < length (exercisesData new_id fs). new_ids i \<notin>
        set (map er_id (tbl_exercises
          (st\<lparr>tbl_workouts := tbl_workouts st @ [workout_row_of now' new_id u name notes]\<rparr>)))"
      using assms(2) by simp
  qed
  then show ?thesis by (simp add: id)
qed

lemma example_save:
  "saveWorkout (Some ''u1'') example_requests (example_page (utf16 ''Legs'') [] 3 10 60)
      empty_store = (Saved, example_store)"
proof -
  let ?good = "example_page (utf16 ''Legs'') [] 3 10 60"
  have h: "trim (workoutName ?good) \<noteq> []" "page_exercises ?good \<noteq> []"
      "rq_workout_fault example_requests = None"
      "rq_workout_id example_requests \<notin> set (map wr_id (tbl_workouts empty_store))"
    by (simp_all add: example_page_def example_requests_def empty_store_def utf16_def trim_def
          is_space_def)
  have f: "rq_exercises_fault example_requests = None"
    by (simp add: example_requests_def)
  have good: "distinct (map (rq_exercise_ids example_requests) [0 ..< length (page_exercises ?good)])"
    "\<forall>i < length (page_exercises ?good).
        rq_exercise_ids example_requests i \<notin> set (map er_id (tbl_exercises empty_store))"
    "\<forall>f \<in> set (page_exercises ?good).
        int4_ok (f_sets f) \<and> int4_ok (f_reps f) \<and> numeric_10_2_ok (f_weight f)"
    by (simp_all add: example_page_def example_requests_def empty_store_def int4_ok_def
          numeric_10_2_ok_def round_2dp_def)
  have s: "empty_store\<lparr>tbl_workouts := tbl_workouts empty_store @
        [workout_row_of (rq_workout_now example_requests) (rq_workout_id example_requests) ''u1''
           (workoutName ?good) (workoutNotes ?good)],
      tbl_exercises :=
         tbl_exercises empty_store @
         map2 (exercise_row_of (rq_exercises_now example_requests))
           (map (rq_exercise_ids example_requests) [0 ..< length (page_exercises ?good)])
           (exercisesData (rq_workout_id example_requests) (page_exercises ?good))\<rparr> =
      example_store"
    by code_simp
  show ?thesis
    unfolding saveWorkout_steps [OF h] Let_def batch_ok [OF good] s
    by (simp add: request_def f)
qed

lemma apply_mutation_workouts:
  "apply_mutation uid m st = Inr st' \<Longrightarrow> r \<in> set (tbl_workouts st') \<Longrightarrow>
     r \<in> set (tbl_workouts st) \<or> wr_updated_at r = wr_created_at r"
  by (cases m)
     (auto split: sum.splits prod.splits
        dest!: insert_workout_Inr insert_exercises_Inr deleteWorkout_Inr)

lemma apply_mutations_workouts:
  "apply_mutations ms st = Inr st' \<Longrightarrow> r \<in> set (tbl_workouts st') \<Longrightarrow>
     r \<in> set (tbl_workouts st) \<or> wr_updated_at r = wr_created_at r"
proof (induction ms arbitrary: st)
  case Nil
  then show ?case by simp
next
  case (Cons a ms)
  obtain uid m where a: "a = (uid, m)" by (cases a)
  from Cons.prems(1) obtain st1 where s1: "apply_mutation uid m st = Inr st1"
    and s2: "apply_mutations ms st1 = Inr st'"
    by (auto simp: a split: sum.splits)
  from Cons.IH [OF s2 Cons.prems(2)] apply_mutation_workouts [OF s1] show ?case by blast
qed

lemma update_workout_refreshes:
  "map wr_updated_at (tbl_workouts (update_workout uid now wid name notes st)) =
     map (\<lambda>w. if wr_id w = wid \<and> owns uid w then now else wr_updated_at w) (tbl_workouts st) \<and>
   map wr_created_at (tbl_workouts (update_workout uid now wid name notes st)) =
     map wr_created_at (tbl_workouts st)"
  by (simp add: update_workout_def update_updated_at_column_def owns_def)

section \<open>Helper facts: the history list\<close>

lemma toggleWorkout_length: "length (toggleWorkout i ws) = length ws"
  by (simp add: toggleWorkout_def)

lemma toggleWorkout_nth:
  "k < length ws \<Longrightarrow>
     toggleWorkout i ws ! k =
       (if h_id (ws ! k) = i then (ws ! k)\<lparr>h_expanded := Some (\<not> truthy (h_expanded (ws ! k)))\<rparr>
        else ws ! k)"
  by (simp add: toggleWorkout_def)

lemma toggleWorkout_twice:
  "\<forall>w \<in> set ws. h_id w = i \<longrightarrow> h_expanded w \<noteq> None \<Longrightarrow> toggleWorkout i (toggleWorkout i ws) = ws"
  by (induction ws) (auto simp: toggleWorkout_def truthy_def)

lemma fetchWorkouts_History_collapsed:
  "fetchWorkouts_History uid fault ex_fault st = Inr ws \<Longrightarrow> \<forall>w \<in> set ws. h_expanded w = Some False"
  by (auto simp: fetchWorkouts_History_def request_def split: option.splits)

lemma history_state_flags: "history_state ws \<Longrightarrow> \<forall>w \<in> set ws. h_expanded w \<noteq> None"
proof (induction rule: history_state.induct)
  case initial
  then show ?case by simp
next
  case (fetched uid fault ex_fault st ws)
  then show ?case
    by (auto dest: fetchWorkouts_History_collapsed)
next
  case (toggled ws i)
  then show ?case
    by (auto simp: toggleWorkout_def)
qed

section \<open>The statistics\<close>

text \<open>
  Claim C1, as the code has it. \<open>thisWeek\<close> counts the workouts whose date, taken as
  midnight UTC of that day, is at least \<open>now\<close> less 7 times 24 hours, and
  \<open>thisMonth\<close> those at least \<open>now\<close> less 30 times 24 hours; both bounds are
  inclusive and are compared as instants. In calendar days: the window of \<open>n\<close> days
  starts \<open>n\<close> days before the UTC date of \<open>now\<close> when \<open>now\<close> is exactly midnight
  UTC, and \<open>n - 1\<close> days before it at any other time of day, so the time of day of
  \<open>now\<close> is not ignored.
\<close>

theorem calculateStats_windows:
  "thisWeek (calculateStats now ws) = count_from (first_day_counted now 7) ws \<and>
   thisMonth (calculateStats now ws) = count_from (first_day_counted now 30) ws"
  by (simp add: calculateStats_days)

text \<open>
  At noon UTC of 2025-01-31 a workout dated 2025-01-25 is in the week, one dated
  2025-01-24 is not.
\<close>

theorem calculateStats_windows_witness:
  "thisWeek (calculateStats 1738324800000 [dated ''2025-01-24'', dated ''2025-01-25'']) = 1 \<and>
   thisMonth (calculateStats 1738324800000 [dated ''2025-01-24'', dated ''2025-01-25'']) = 2"
proof -
  have f7: "first_day_counted 1738324800000 7 = 20113"
    and f30: "first_day_counted 1738324800000 30 = 20090"
    by (simp_all add: first_day_counted_def utc_day_def msPerDay_def)
  have c: "map (\<lambda>w. calendar_day (w_date w)) [dated ''2025-01-24'', dated ''2025-01-25'']
             = [Some 20112, Some 20113]"
    by code_simp
  have n: "\<And>d0. count_from d0 [dated ''2025-01-24'', dated ''2025-01-25''] =
      length (filter (\<lambda>x. case x of None \<Rightarrow> False | Some d \<Rightarrow> d0 \<le> d)
         (map (\<lambda>w. calendar_day (w_date w)) [dated ''2025-01-24'', dated ''2025-01-25'']))"
    unfolding count_from_def filter_map comp_def length_map ..
  show ?thesis
    using calculateStats_windows [of 1738324800000 "[dated ''2025-01-24'', dated ''2025-01-25'']"]
    unfolding f7 f30 n c by simp
qed

text \<open>
  The comparison on calendar dates alone would count the workout dated 2025-01-24 in the
  week of 2025-01-31; at noon of that day the code does not.
\<close>

theorem calendar_window_counterexample:
  "calendar_day ''2025-01-31'' = Some (utc_day 1738324800000) \<and>
   thisWeek (calculateStats 1738324800000 [dated ''2025-01-24'']) = 0 \<and>
   thisWeek (spec_stats 1738324800000 [dated ''2025-01-24'']) = 1"
  by code_simp

text \<open>
  Claim C2, as the code has it. With the four workouts dated 2025-01-30, 2025-01-25,
  2025-01-01 and 2024-12-01 and \<open>now\<close> any instant of 2025-01-31 (UTC), the statistics
  are \<open>totalWorkouts = 4\<close> and \<open>thisWeek = 2\<close>; \<open>thisMonth\<close> is 3 only when
  \<open>now\<close> is exactly 2025-01-31T00:00:00.000Z and 2 at every later instant of the day,
  because midnight of 2025-01-01 is then earlier than \<open>now\<close> less 30 times 24 hours.
\<close>

theorem scenario_2025_01_31:
  "calendar_day ''2025-01-31'' = Some (utc_day now) \<Longrightarrow>
     calculateStats now scenario_workouts =
       \<lparr>totalWorkouts = 4, thisWeek = 2,
        thisMonth = (if Date_parse ''2025-01-31'' = Some now then 3 else 2)\<rparr>"
proof -
  assume a: "calendar_day ''2025-01-31'' = Some (utc_day now)"
  have "calendar_day ''2025-01-31'' = Some 20119"
    by code_simp
  with a have d: "utc_day now = 20119" by simp
  have p: "Date_parse ''2025-01-31'' = Some 1738281600000"
    by code_simp
  have mid: "now mod msPerDay = 0 \<longleftrightarrow> now = 1738281600000"
  proof -
    have "now = (now div msPerDay) * msPerDay + now mod msPerDay" by simp
    also have "now div msPerDay = 20119"
      using d by (simp add: utc_day_def)
    finally have "now = 20119 * msPerDay + now mod msPerDay" .
    then show ?thesis by (auto simp add: msPerDay_def)
  qed
  show ?thesis
    unfolding calculateStats_days count_from_scenario scenario_length first_day_counted_def d mid p
    by auto
qed

text \<open>At midnight UTC of 2025-01-31 the statistics are 4, 2 and 3.\<close>

theorem scenario_2025_01_31_witness:
  "calendar_day ''2025-01-31'' = Some (utc_day 1738281600000) \<and>
   calculateStats 1738281600000 scenario_workouts =
     \<lparr>totalWorkouts = 4, thisWeek = 2, thisMonth = 3\<rparr>"
proof -
  have d: "calendar_day ''2025-01-31'' = Some (utc_day 1738281600000)"
    by code_simp
  have p: "Date_parse ''2025-01-31'' = Some 1738281600000"
    by code_simp
  show ?thesis
    using scenario_2025_01_31 [OF d] d p by simp
qed

text \<open>At noon UTC of 2025-01-31 \<open>thisMonth\<close> is 2, not 3.\<close>

theorem scenario_noon_counterexample:
  "calendar_day ''2025-01-31'' = Some (utc_day 1738324800000) \<and>
   calculateStats 1738324800000 scenario_workouts =
     \<lparr>totalWorkouts = 4, thisWeek = 2, thisMonth = 2\<rparr>"
  by code_simp

text \<open>
  Claim C9. For every list of workouts and every \<open>now\<close>,
  \<open>thisWeek \<le> thisMonth \<le> totalWorkouts\<close>. On the dashboard the query is limited
  to 5 rows, so the statistics it shows never have \<open>totalWorkouts\<close> above 5, whatever
  the store holds: this is so initially, a fetch keeps it so, and a fetch that succeeds
  shows the statistics of the at most 5 rows it read.
\<close>

theorem dashboard_stats_bounded:
  "thisWeek (calculateStats now ws) \<le> thisMonth (calculateStats now ws) \<and>
   thisMonth (calculateStats now ws) \<le> totalWorkouts (calculateStats now ws) \<and>
   totalWorkouts (d_stats initial_Dashboard) \<le> 5 \<and>
   (totalWorkouts (d_stats dash) \<le> 5 \<longrightarrow>
      totalWorkouts (d_stats (fetchWorkouts uid fault now st dash)) \<le> 5) \<and>
   (fault = None \<longrightarrow>
      d_stats (fetchWorkouts uid fault now st dash) =
        calculateStats now (d_workouts (fetchWorkouts uid fault now st dash)) \<and>
      length (d_workouts (fetchWorkouts uid fault now st dash)) \<le> 5)"
proof -
  have a: "totalWorkouts (d_stats dash) \<le> 5 \<Longrightarrow>
      totalWorkouts (d_stats (fetchWorkouts uid fault now st dash)) \<le> 5"
    using select_workouts_limit [of uid 5 st]
    by (cases fault) (simp_all add: fetchWorkouts_def request_def calculateStats_def Let_def)
  have b: "fault = None \<Longrightarrow>
      d_stats (fetchWorkouts uid fault now st dash) =
        calculateStats now (d_workouts (fetchWorkouts uid fault now st dash)) \<and>
      length (d_workouts (fetchWorkouts uid fault now st dash)) \<le> 5"
    using select_workouts_limit [of uid 5 st]
    by (simp add: fetchWorkouts_def request_def Let_def)
  have c: "totalWorkouts (d_stats initial_Dashboard) \<le> 5"
    by (simp add: initial_Dashboard_def)
  from a b c calculateStats_ordered [of now ws] show ?thesis by blast
qed

text \<open>A session with six workouts is shown a total of five.\<close>

theorem dashboard_stats_bounded_witness:
  "length (tbl_workouts busy_store) = 6 \<and>
   totalWorkouts
     (d_stats (fetchWorkouts (Some ''u1'') None 1738324800000 busy_store initial_Dashboard)) = 5"
proof -
  have s: "length (select_workouts (Some ''u1'') (Some 5) busy_store) = 5"
    by code_simp
  have t: "totalWorkouts
     (d_stats (fetchWorkouts (Some ''u1'') None 1738324800000 busy_store initial_Dashboard)) = 5"
    by (simp add: fetchWorkouts_def request_def calculateStats_def Let_def s)
  have l: "length (tbl_workouts busy_store) = 6"
    by (simp add: busy_store_def)
  show ?thesis
    using dashboard_stats_bounded [of 1738324800000
        "d_workouts (fetchWorkouts (Some ''u1'') None 1738324800000 busy_store initial_Dashboard)"
        initial_Dashboard "Some ''u1''" None busy_store] t l
    by simp
qed

section \<open>Saving a workout\<close>

text \<open>
  Claim C3, as the code has it. Saving fails with a validation toast when the workout
  name is blank or the form has no exercise, and then nothing is written. The name of an
  exercise is not validated: when the form passes that validation, both requests go
  through, the drawn identifiers are fresh and the numbers are non-negative and fit
  their columns, saving succeeds and creates every exercise of the batch with the name,
  sets and reps as entered and the weight rounded to two decimals, whether or not a name
  is empty.
\<close>

theorem saveWorkout_exercise_names_unchecked:
  "(trim (workoutName page) = [] \<or> page_exercises page = [] \<longrightarrow>
      fst (saveWorkout user rq page st) \<in> {NameRequired, ExerciseRequired} \<and>
      snd (saveWorkout user rq page st) = st) \<and>
   (trim (workoutName page) \<noteq> [] \<and> page_exercises page \<noteq> [] \<and>
    rq_workout_fault rq = None \<and> rq_exercises_fault rq = None \<and>
    rq_workout_id rq \<notin> set (map wr_id (tbl_workouts st)) \<and>
    distinct (map (rq_exercise_ids rq) [0 ..< length (page_exercises page)]) \<and>
    (\<forall>i < length (page_exercises page).
        rq_exercise_ids rq i \<notin> set (map er_id (tbl_exercises st))) \<and>
    (\<forall>f \<in> set (page_exercises page).
        0 \<le> f_sets f \<and> int4_ok (f_sets f) \<and> 0 \<le> f_reps f \<and> int4_ok (f_reps f) \<and>
        0 \<le> f_weight f \<and> numeric_10_2_ok (f_weight f)) \<longrightarrow>
      fst (saveWorkout (Some u) rq page st) = Saved \<and>
      map (\<lambda>e. (er_name e, er_sets e, er_reps e, er_weight e))
        (drop (length (tbl_exercises st)) (tbl_exercises (snd (saveWorkout (Some u) rq page st)))) =
      map (\<lambda>f. (f_name f, f_sets f, f_reps f, round_2dp (f_weight f))) (page_exercises page))"
proof -
  have rejected: "fst (saveWorkout user rq page st) \<in> {NameRequired, ExerciseRequired} \<and>
      snd (saveWorkout user rq page st) = st"
    if "trim (workoutName page) = [] \<or> page_exercises page = []"
    using that by (auto simp: saveWorkout_def)
  have saved: "fst (saveWorkout (Some u) rq page st) = Saved \<and>
      map (\<lambda>e. (er_name e, er_sets e, er_reps e, er_weight e))
        (drop (length (tbl_exercises st)) (tbl_exercises (snd (saveWorkout (Some u) rq page st)))) =
      map (\<lambda>f. (f_name f, f_sets f, f_reps f, round_2dp (f_weight f))) (page_exercises page)"
    if name: "trim (workoutName page) \<noteq> []" and ne: "page_exercises page \<noteq> []"
      and f1: "rq_workout_fault rq = None" and f2: "rq_exercises_fault rq = None"
      and fresh: "rq_workout_id rq \<notin> set (map wr_id (tbl_workouts st))"
      and dist: "distinct (map (rq_exercise_ids rq) [0 ..< length (page_exercises page)])"
      and fresh2: "\<forall>i < length (page_exercises page).
        rq_exercise_ids rq i \<notin> set (map er_id (tbl_exercises st))"
      and range: "\<forall>f \<in> set (page_exercises page).
        0 \<le> f_sets f \<and> int4_ok (f_sets f) \<and> 0 \<le> f_reps f \<and> int4_ok (f_reps f) \<and>
        0 \<le> f_weight f \<and> numeric_10_2_ok (f_weight f)"
  proof -
    from range have range': "\<forall>f \<in> set (page_exercises page).
        int4_ok (f_sets f) \<and> int4_ok (f_reps f) \<and> numeric_10_2_ok (f_weight f)"
      by blast
    have s: "saveWorkout (Some u) rq page st =
        (Saved,
         st\<lparr>tbl_workouts := tbl_workouts st @
               [workout_row_of (rq_workout_now rq) (rq_workout_id rq) u
                  (workoutName page) (workoutNotes page)],
            tbl_exercises := tbl_exercises st @
               map2 (exercise_row_of (rq_exercises_now rq))
                 (map (rq_exercise_ids rq) [0 ..< length (page_exercises page)])
                 (exercisesData (rq_workout_id rq) (page_exercises page))\<rparr>)"
      unfolding saveWorkout_steps [OF name ne f1 fresh] Let_def batch_ok [OF dist fresh2 range']
      by (simp add: request_def f2)
    have "length (map (rq_exercise_ids rq) [0 ..< length (page_exercises page)]) =
        length (page_exercises page)"
      by simp
    from map2_exercise_rows [OF this] show ?thesis
      by (simp add: s)
  qed
  from rejected saved show ?thesis by blast
qed

text \<open>
  A batch with an empty exercise name is saved; a workout name that is a single no-break
  space is blank and is rejected.
\<close>

theorem saveWorkout_exercise_names_unchecked_witness:
  "fst (saveWorkout (Some ''u1'') example_requests (example_page (utf16 ''Legs'') [] 3 10 60)
          empty_store) = Saved \<and>
   map er_name
     (tbl_exercises
        (snd (saveWorkout (Some ''u1'') example_requests
                (example_page (utf16 ''Legs'') [] 3 10 60) empty_store))) = [[]] \<and>
   saveWorkout (Some ''u1'') example_requests (example_page [0xA0] (utf16 ''Squat'') 3 10 60)
      example_store = (NameRequired, example_store)"
proof -
  let ?good = "example_page (utf16 ''Legs'') [] 3 10 60"
  let ?blank = "example_page [0xA0] (utf16 ''Squat'') 3 10 60"
  have g: "trim (workoutName ?good) \<noteq> [] \<and> page_exercises ?good \<noteq> [] \<and>
    rq_workout_fault example_requests = None \<and> rq_exercises_fault example_requests = None \<and>
    rq_workout_id example_requests \<notin> set (map wr_id (tbl_workouts empty_store)) \<and>
    distinct (map (rq_exercise_ids example_requests) [0 ..< length (page_exercises ?good)]) \<and>
    (\<forall>i < length (page_exercises ?good).
        rq_exercise_ids example_requests i \<notin> set (map er_id (tbl_exercises empty_store))) \<and>
    (\<forall>f \<in> set (page_exercises ?good).
        0 \<le> f_sets f \<and> int4_ok (f_sets f) \<and> 0 \<le> f_reps f \<and> int4_ok (f_reps f) \<and>
        0 \<le> f_weight f \<and> numeric_10_2_ok (f_weight f))"
    by (simp add: example_page_def example_requests_def empty_store_def utf16_def trim_def
          is_space_def int4_ok_def numeric_10_2_ok_def round_2dp_def)
  have "fst (saveWorkout (Some ''u1'') example_requests ?good empty_store) = Saved \<and>
      map (\<lambda>e. (er_name e, er_sets e, er_reps e, er_weight e))
        (drop (length (tbl_exercises empty_store))
           (tbl_exercises (snd (saveWorkout (Some ''u1'') example_requests ?good empty_store)))) =
      map (\<lambda>f. (f_name f, f_sets f, f_reps f, round_2dp (f_weight f))) (page_exercises ?good)"
    using saveWorkout_exercise_names_unchecked [of ?good "Some ''u1''" example_requests
        empty_store "''u1''"] g
    by blast
  then have 1: "fst (saveWorkout (Some ''u1'') example_requests ?good empty_store) = Saved \<and>
      map er_name
        (tbl_exercises (snd (saveWorkout (Some ''u1'') example_requests ?good empty_store))) = [[]]"
    by (simp add: example_save example_store_def example_exercise_def)
  have b: "trim (workoutName ?blank) = []"
    by (simp add: example_page_def trim_def is_space_def)
  have n: "fst (saveWorkout (Some ''u1'') example_requests ?blank example_store) = NameRequired"
    by (simp add: saveWorkout_def b)
  have "snd (saveWorkout (Some ''u1'') example_requests ?blank example_store) = example_store"
    using saveWorkout_exercise_names_unchecked [of ?blank "Some ''u1''" example_requests
        example_store] b
    by blast
  with n have "saveWorkout (Some ''u1'') example_requests ?blank example_store =
      (NameRequired, example_store)"
    by (simp add: prod_eq_iff)
  with 1 show ?thesis by blast
qed

text \<open>
  An exercise with an empty name, 3 sets, 10 reps and a weight of 60 is not refused:
  saving succeeds and the exercise is created with its empty name.
\<close>

theorem empty_exercise_name_counterexample:
  "fst (saveWorkout (Some ''u1'') example_requests (example_page (utf16 ''Legs'') [] 3 10 60)
          empty_store) = Saved \<and>
   map (\<lambda>e. (er_name e, er_sets e, er_reps e, er_weight e))
     (tbl_exercises
        (snd (saveWorkout (Some ''u1'') example_requests
                (example_page (utf16 ''Legs'') [] 3 10 60) empty_store))) =
     [([], 3, 10, 60)]"
  unfolding example_save
  by (simp add: example_store_def example_exercise_def)

text \<open>
  Claim C6. Saving with an empty workout name is rejected with the validation toast for
  the missing name, for every user, before any request is made: the store is unchanged
  and no workout is persisted.
\<close>

theorem saveWorkout_empty_name:
  "workoutName page = [] \<Longrightarrow> saveWorkout user rq page st = (NameRequired, st)"
  by (simp add: saveWorkout_def trim_def)

text \<open>An empty name with one exercise, on a store that holds a workout already.\<close>

theorem saveWorkout_empty_name_witness:
  "workoutName (example_page [] (utf16 ''Squat'') 3 10 60) = [] \<and>
   saveWorkout (Some ''u1'') example_requests (example_page [] (utf16 ''Squat'') 3 10 60) example_store =
     (NameRequired, example_store)"
proof -
  have h: "workoutName (example_page [] (utf16 ''Squat'') 3 10 60) = []"
    by (simp add: example_page_def)
  show ?thesis
    using saveWorkout_empty_name [OF h] h by simp
qed

text \<open>
  Claim C7. When the form passes validation and the workout insert goes through, the
  workout row is created first, and the exercises are then sent as one batch to the
  store that already holds the workout. If the batch fails, for any reason, among them a
  failed request or a number that does not fit its column, saving reports that error and
  the store is left as it was after the workout insert: the workout is neither rolled
  back nor deleted and no exercise of the batch exists. If the request goes through, the
  drawn identifiers are fresh and the numbers fit their columns, saving reports success
  and the store holds, besides the workout, every exercise of the form, in order, under
  the new workout's id.
\<close>

theorem saveWorkout_no_rollback:
  assumes "trim (workoutName page) \<noteq> []" and "page_exercises page \<noteq> []"
    and "rq_workout_fault rq = None"
    and "rq_workout_id rq \<notin> set (map wr_id (tbl_workouts st))"
  shows
    "let workout = workout_row_of (rq_workout_now rq) (rq_workout_id rq) u
                     (workoutName page) (workoutNotes page);
         st1 = st\<lparr>tbl_workouts := tbl_workouts st @ [workout]\<rparr>;
         batch = request (rq_exercises_fault rq)
                   (insert_exercises (Some u) (rq_exercises_now rq) (rq_exercise_ids rq)
                      (exercisesData (wr_id workout) (page_exercises page)) st1)
     in request (rq_workout_fault rq)
          (insert_workout (Some u) (rq_workout_now rq) (rq_workout_id rq) u
             (workoutName page) (workoutNotes page) st) = Inr (workout, st1) \<and>
        (\<forall>e. batch = Inl e \<longrightarrow> saveWorkout (Some u) rq page st = (SaveError e, st1)) \<and>
        (\<forall>msg. rq_exercises_fault rq = Some msg \<longrightarrow>
           saveWorkout (Some u) rq page st = (SaveError (RequestFailed msg), st1)) \<and>
        (rq_exercises_fault rq = None \<and>
         (\<exists>f \<in> set (page_exercises page).
            \<not> (int4_ok (f_sets f) \<and> int4_ok (f_reps f) \<and> numeric_10_2_ok (f_weight f))) \<longrightarrow>
           saveWorkout (Some u) rq page st = (SaveError NumericOutOfRange, st1)) \<and>
        (rq_exercises_fault rq = None \<and>
         distinct (map (rq_exercise_ids rq) [0 ..< length (page_exercises page)]) \<and>
         (\<forall>i < length (page_exercises page).
            rq_exercise_ids rq i \<notin> set (map er_id (tbl_exercises st))) \<and>
         (\<forall>f \<in> set (page_exercises page).
            int4_ok (f_sets f) \<and> int4_ok (f_reps f) \<and> numeric_10_2_ok (f_weight f)) \<longrightarrow>
           saveWorkout (Some u) rq page st =
             (Saved,
              st1\<lparr>tbl_exercises :=
                    tbl_exercises st @
                    map2 (exercise_row_of (rq_exercises_now rq))
                      (map (rq_exercise_ids rq) [0 ..< length (page_exercises page)])
                      (exercisesData (wr_id workout) (page_exercises page))\<rparr>))"
proof -
  define workout where "workout = workout_row_of (rq_workout_now rq) (rq_workout_id rq) u
                     (workoutName page) (workoutNotes page)"
  define st1 where "st1 = st\<lparr>tbl_workouts := tbl_workouts st @ [workout]\<rparr>"
  define batch where "batch = request (rq_exercises_fault rq)
                   (insert_exercises (Some u) (rq_exercises_now rq) (rq_exercise_ids rq)
                      (exercisesData (wr_id workout) (page_exercises page)) st1)"
  have wid: "wr_id workout = rq_workout_id rq"
    by (simp add: workout_def workout_row_of_def)
  have first: "request (rq_workout_fault rq)
          (insert_workout (Some u) (rq_workout_now rq) (rq_workout_id rq) u
             (workoutName page) (workoutNotes page) st) = Inr (workout, st1)"
    using assms(3,4) by (simp add: request_def insert_workout_ok workout_def st1_def)
  have steps: "saveWorkout (Some u) rq page st =
      (case batch of Inl e \<Rightarrow> (SaveError e, st1) | Inr st2 \<Rightarrow> (Saved, st2))"
    unfolding batch_def st1_def workout_def
    using saveWorkout_steps [OF assms, of u]
    by (simp add: Let_def)
  have failed: "saveWorkout (Some u) rq page st = (SaveError e, st1)" if "batch = Inl e" for e
    using that by (simp add: steps)
  have fault: "saveWorkout (Some u) rq page st = (SaveError (RequestFailed msg), st1)"
    if "rq_exercises_fault rq = Some msg" for msg
    using that by (intro failed) (simp add: batch_def request_def)
  have range: "saveWorkout (Some u) rq page st = (SaveError NumericOutOfRange, st1)"
    if "rq_exercises_fault rq = None"
      and "\<exists>f \<in> set (page_exercises page).
            \<not> (int4_ok (f_sets f) \<and> int4_ok (f_reps f) \<and> numeric_10_2_ok (f_weight f))"
  proof (rule failed)
    from that(2) have "\<exists>x \<in> set (exercisesData (wr_id workout) (page_exercises page)).
        \<not> (int4_ok (xi_sets x) \<and> int4_ok (xi_reps x) \<and> numeric_10_2_ok (xi_weight x))"
      by (auto simp: exercisesData_def)
    from insert_exercises_out_of_range [OF this] that(1) show "batch = Inl NumericOutOfRange"
      by (simp add: batch_def request_def)
  qed
  have saved: "saveWorkout (Some u) rq page st =
             (Saved,
              st1\<lparr>tbl_exercises :=
                    tbl_exercises st @
                    map2 (exercise_row_of (rq_exercises_now rq))
                      (map (rq_exercise_ids rq) [0 ..< length (page_exercises page)])
                      (exercisesData (wr_id workout) (page_exercises page))\<rparr>)"
    if f2: "rq_exercises_fault rq = None"
      and dist: "distinct (map (rq_exercise_ids rq) [0 ..< length (page_exercises page)])"
      and fresh2: "\<forall>i < length (page_exercises page).
            rq_exercise_ids rq i \<notin> set (map er_id (tbl_exercises st))"
      and ok: "\<forall>f \<in> set (page_exercises page).
            int4_ok (f_sets f) \<and> int4_ok (f_reps f) \<and> numeric_10_2_ok (f_weight f)"
  proof -
    have "insert_exercises (Some u) (rq_exercises_now rq) (rq_exercise_ids rq)
              (exercisesData (wr_id workout) (page_exercises page)) st1 =
          Inr (st1\<lparr>tbl_exercises :=
                    tbl_exercises st @
                    map2 (exercise_row_of (rq_exercises_now rq))
                      (map (rq_exercise_ids rq) [0 ..< length (page_exercises page)])
                      (exercisesData (rq_workout_id rq) (page_exercises page))\<rparr>)"
      unfolding st1_def workout_def by (rule batch_ok [OF dist fresh2 ok])
    then have "batch = Inr (st1\<lparr>tbl_exercises :=
                    tbl_exercises st @
                    map2 (exercise_row_of (rq_exercises_now rq))
                      (map (rq_exercise_ids rq) [0 ..< length (page_exercises page)])
                      (exercisesData (wr_id workout) (page_exercises page))\<rparr>)"
      by (simp add: batch_def request_def f2 wid)
    then show ?thesis by (simp add: steps)
  qed
  have main:
    "request (rq_workout_fault rq)
          (insert_workout (Some u) (rq_workout_now rq) (rq_workout_id rq) u
             (workoutName page) (workoutNotes page) st) = Inr (workout, st1) \<and>
        (\<forall>e. batch = Inl e \<longrightarrow> saveWorkout (Some u) rq page st = (SaveError e, st1)) \<and>
        (\<forall>msg. rq_exercises_fault rq = Some msg \<longrightarrow>
           saveWorkout (Some u) rq page st = (SaveError (RequestFailed msg), st1)) \<and>
        (rq_exercises_fault rq = None \<and>
         (\<exists>f \<in> set (page_exercises page).
            \<not> (int4_ok (f_sets f) \<and> int4_ok (f_reps f) \<and> numeric_10_2_ok (f_weight f))) \<longrightarrow>
           saveWorkout (Some u) rq page st = (SaveError NumericOutOfRange, st1)) \<and>
        (rq_exercises_fault rq = None \<and>
         distinct (map (rq_exercise_ids rq) [0 ..< length (page_exercises page)]) \<and>
         (\<forall>i < length (page_exercises page).
            rq_exercise_ids rq i \<notin> set (map er_id (tbl_exercises st))) \<and>
         (\<forall>f \<in> set (page_exercises page).
            int4_ok (f_sets f) \<and> int4_ok (f_reps f) \<and> numeric_10_2_ok (f_weight f)) \<longrightarrow>
           saveWorkout (Some u) rq page st =
             (Saved,
              st1\<lparr>tbl_exercises :=
                    tbl_exercises st @
                    map2 (exercise_row_of (rq_exercises_now rq))
                      (map (rq_exercise_ids rq) [0 ..< length (page_exercises page)])
                      (exercisesData (wr_id workout) (page_exercises page))\<rparr>))"
    using first failed fault range saved by blast
  show ?thesis
    using main unfolding Let_def batch_def st1_def workout_def .
qed

text \<open>
  A batch that the store refuses (3000000000 sets do not fit the INTEGER column) leaves
  the workout behind without exercises; a batch that it accepts is stored whole.
\<close>

theorem saveWorkout_no_rollback_witness:
  "saveWorkout (Some ''u1'') example_requests
      (example_page (utf16 ''Legs'') (utf16 ''Squat'') 3000000000 10 60) empty_store =
     (SaveError NumericOutOfRange, \<lparr>tbl_workouts = [example_workout], tbl_exercises = []\<rparr>) \<and>
   saveWorkout (Some ''u1'') example_requests
      (example_page (utf16 ''Legs'') [] 3 10 60) empty_store =
     (Saved, \<lparr>tbl_workouts = [example_workout], tbl_exercises = [example_exercise]\<rparr>)"
proof -
  let ?bad = "example_page (utf16 ''Legs'') (utf16 ''Squat'') 3000000000 10 60"
  let ?good = "example_page (utf16 ''Legs'') [] 3 10 60"
  have h1: "trim (workoutName ?bad) \<noteq> []" "page_exercises ?bad \<noteq> []"
    and h2: "trim (workoutName ?good) \<noteq> []" "page_exercises ?good \<noteq> []"
    and h: "rq_workout_fault example_requests = None"
      "rq_workout_id example_requests \<notin> set (map wr_id (tbl_workouts empty_store))"
    by (simp_all add: example_page_def example_requests_def empty_store_def utf16_def trim_def
          is_space_def)
  have f: "rq_exercises_fault example_requests = None"
    by (simp add: example_requests_def)
  have bad: "\<exists>f \<in> set (page_exercises ?bad).
      \<not> (int4_ok (f_sets f) \<and> int4_ok (f_reps f) \<and> numeric_10_2_ok (f_weight f))"
    by (simp add: example_page_def int4_ok_def)
  have good: "distinct (map (rq_exercise_ids example_requests) [0 ..< length (page_exercises ?good)])"
    "\<forall>i < length (page_exercises ?good).
        rq_exercise_ids example_requests i \<notin> set (map er_id (tbl_exercises empty_store))"
    "\<forall>f \<in> set (page_exercises ?good).
        int4_ok (f_sets f) \<and> int4_ok (f_reps f) \<and> numeric_10_2_ok (f_weight f)"
    by (simp_all add: example_page_def example_requests_def empty_store_def int4_ok_def
          numeric_10_2_ok_def round_2dp_def)
  have s1: "empty_store\<lparr>tbl_workouts := tbl_workouts empty_store @
        [workout_row_of (rq_workout_now example_requests) (rq_workout_id example_requests) ''u1''
           (workoutName ?bad) (workoutNotes ?bad)]\<rparr> =
      \<lparr>tbl_workouts = [example_workout], tbl_exercises = []\<rparr>"
    by code_simp
  have s2: "empty_store\<lparr>tbl_workouts := tbl_workouts empty_store @
        [workout_row_of (rq_workout_now example_requests) (rq_workout_id example_requests) ''u1''
           (workoutName ?good) (workoutNotes ?good)]\<rparr>
      \<lparr>tbl_exercises :=
         tbl_exercises empty_store @
         map2 (exercise_row_of (rq_exercises_now example_requests))
           (map (rq_exercise_ids example_requests) [0 ..< length (page_exercises ?good)])
           (exercisesData
              (wr_id (workout_row_of (rq_workout_now example_requests)
                   (rq_workout_id example_requests) ''u1'' (workoutName ?good) (workoutNotes ?good)))
              (page_exercises ?good))\<rparr> =
      \<lparr>tbl_workouts = [example_workout], tbl_exercises = [example_exercise]\<rparr>"
    by code_simp
  from saveWorkout_no_rollback [OF h1 h, of "''u1''", unfolded Let_def] f bad
  have "saveWorkout (Some ''u1'') example_requests ?bad empty_store =
      (SaveError NumericOutOfRange,
       empty_store\<lparr>tbl_workouts := tbl_workouts empty_store @
        [workout_row_of (rq_workout_now example_requests) (rq_workout_id example_requests) ''u1''
           (workoutName ?bad) (workoutNotes ?bad)]\<rparr>)"
    by blast
  then have 1: "saveWorkout (Some ''u1'') example_requests ?bad empty_store =
      (SaveError NumericOutOfRange, \<lparr>tbl_workouts = [example_workout], tbl_exercises = []\<rparr>)"
    unfolding s1 .
  from saveWorkout_no_rollback [OF h2 h, of "''u1''", unfolded Let_def] f good
  have "saveWorkout (Some ''u1'') example_requests ?good empty_store =
      (Saved,
       empty_store\<lparr>tbl_workouts := tbl_workouts empty_store @
        [workout_row_of (rq_workout_now example_requests) (rq_workout_id example_requests) ''u1''
           (workoutName ?good) (workoutNotes ?good)]\<rparr>
      \<lparr>tbl_exercises :=
         tbl_exercises empty_store @
         map2 (exercise_row_of (rq_exercises_now example_requests))
           (map (rq_exercise_ids example_requests) [0 ..< length (page_exercises ?good)])
           (exercisesData
              (wr_id (workout_row_of (rq_workout_now example_requests)
                   (rq_workout_id example_requests) ''u1'' (workoutName ?good) (workoutNotes ?good)))
              (page_exercises ?good))\<rparr>)"
    by blast
  then have 2: "saveWorkout (Some ''u1'') example_requests ?good empty_store =
      (Saved, \<lparr>tbl_workouts = [example_workout], tbl_exercises = [example_exercise]\<rparr>)"
    unfolding s2 .
  from 1 2 show ?thesis ..
qed

section \<open>Timestamps and the cascade\<close>

text \<open>
  Claim C4, as the code has it. Creating a workout sets its \<open>created_at\<close> and
  \<open>updated_at\<close> to the time of the insert. Adding exercises leaves every workout row
  as it was, and deleting a workout leaves every other workout row as it was. So after
  any sequence of successful mutations each workout row is either a row of the initial
  store, unchanged, or has \<open>updated_at\<close> equal to \<open>created_at\<close>:
  \<open>created_at\<close> never changes and \<open>updated_at\<close> never decreases. Only an UPDATE of
  a workout row refreshes its \<open>updated_at\<close>, through the trigger.
\<close>

theorem timestamps_set_at_creation:
  "(apply_mutation uid (CreateWorkout now new_id user_id name notes) st = Inr st' \<longrightarrow>
      (\<exists>row. tbl_workouts st' = tbl_workouts st @ [row] \<and> wr_id row = new_id \<and>
             wr_created_at row = now \<and> wr_updated_at row = now)) \<and>
   (apply_mutation uid (AddExercises now new_ids xs) st = Inr st' \<longrightarrow>
      tbl_workouts st' = tbl_workouts st) \<and>
   (apply_mutation uid (DeleteWorkout wid) st = Inr st' \<longrightarrow>
      tbl_workouts st' = filter (\<lambda>w. wr_id w \<noteq> wid) (tbl_workouts st)) \<and>
   (apply_mutations ms st = Inr st'' \<and> r \<in> set (tbl_workouts st'') \<longrightarrow>
      r \<in> set (tbl_workouts st) \<or> wr_updated_at r = wr_created_at r) \<and>
   map wr_updated_at (tbl_workouts (update_workout uid now wid new_name new_notes st)) =
     map (\<lambda>w. if wr_id w = wid \<and> owns uid w then now else wr_updated_at w) (tbl_workouts st) \<and>
   map wr_created_at (tbl_workouts (update_workout uid now wid new_name new_notes st)) =
     map wr_created_at (tbl_workouts st)"
proof -
  have "\<exists>row. tbl_workouts st' = tbl_workouts st @ [row] \<and> wr_id row = new_id \<and>
             wr_created_at row = now \<and> wr_updated_at row = now"
    if "apply_mutation uid (CreateWorkout now new_id user_id name notes) st = Inr st'"
    using that by (auto split: sum.splits prod.splits dest!: insert_workout_Inr)
  moreover have "tbl_workouts st' = tbl_workouts st"
    if "apply_mutation uid (AddExercises now new_ids xs) st = Inr st'"
    using that by (auto dest: insert_exercises_Inr)
  moreover have "tbl_workouts st' = filter (\<lambda>w. wr_id w \<noteq> wid) (tbl_workouts st)"
    if "apply_mutation uid (DeleteWorkout wid) st = Inr st'"
    using that by (auto dest: deleteWorkout_Inr)
  ultimately show ?thesis
    using apply_mutations_workouts [of ms st st'' r] update_workout_refreshes [of uid now wid new_name new_notes st]
    by blast
qed

text \<open>A workout created and given an exercise half a second later.\<close>

theorem timestamps_set_at_creation_witness:
  "apply_mutations example_mutations empty_store = Inr example_store \<and>
   map wr_updated_at (tbl_workouts example_store) = map wr_created_at (tbl_workouts example_store)"
proof -
  have m: "apply_mutations example_mutations empty_store = Inr example_store"
    by code_simp
  have e: "tbl_workouts empty_store = []"
    by (simp add: empty_store_def)
  show ?thesis
    using timestamps_set_at_creation [where ms = example_mutations and st = empty_store
        and st'' = example_store] m e
    by auto
qed

text \<open>
  Exercises added half a second after the workout was created: the workout's
  \<open>updated_at\<close> is still the time of its creation, not the time of the addition.
\<close>

theorem addExercises_no_refresh_counterexample:
  "apply_mutation (Some ''u1'')
      (AddExercises 1738324800500 (\<lambda>i. replicate (Suc i) CHR ''e'') [example_input])
      \<lparr>tbl_workouts = [example_workout], tbl_exercises = []\<rparr> = Inr example_store \<and>
   map wr_updated_at (tbl_workouts example_store) = [1738324800000] \<and>
   map er_created_at (tbl_exercises example_store) = [1738324800500]"
  by code_simp

text \<open>
  Claim C5. After \<open>deleteWorkout\<close> of a workout succeeds, \<open>getExercisesFor\<close> of
  its id is empty for every session, and neither the workout nor any exercise that
  refers to it remains. No exercise exists without its workout: this holds of the empty
  store and is kept by saving a workout and by every sequence of successful mutations.
\<close>

theorem deleteWorkout_cascade:
  "(deleteWorkout uid wid st = Inr st' \<longrightarrow>
      getExercisesFor uid' wid st' = [] \<and>
      wid \<notin> set (map wr_id (tbl_workouts st')) \<and>
      wid \<notin> set (map er_workout_id (tbl_exercises st'))) \<and>
   fk_ok empty_store \<and>
   (fk_ok st \<longrightarrow> fk_ok (snd (saveWorkout user rq page st))) \<and>
   (fk_ok st \<and> apply_mutations ms st = Inr st'' \<longrightarrow> fk_ok st'')"
proof -
  have "wid \<notin> set (map wr_id (tbl_workouts st')) \<and>
        wid \<notin> set (map er_workout_id (tbl_exercises st'))"
    if "deleteWorkout uid wid st = Inr st'"
    using deleteWorkout_Inr [OF that] by auto
  moreover have "fk_ok empty_store"
    by (simp add: fk_ok_def empty_store_def)
  ultimately show ?thesis
    using cascade_empty fk_saveWorkout fk_apply_mutations by blast
qed

text \<open>Deleting the only workout of a store removes its exercise with it.\<close>

theorem deleteWorkout_cascade_witness:
  "deleteWorkout (Some ''u1'') ''w1'' example_store = Inr empty_store \<and>
   fk_ok example_store \<and>
   getExercisesFor (Some ''u1'') ''w1'' example_store = [example_exercise] \<and>
   getExercisesFor (Some ''u1'') ''w1'' empty_store = []"
proof -
  have d: "deleteWorkout (Some ''u1'') ''w1'' example_store = Inr empty_store"
    by code_simp
  have f: "fk_ok example_store"
    by code_simp
  have g: "getExercisesFor (Some ''u1'') ''w1'' example_store = [example_exercise]"
    by code_simp
  show ?thesis
    using deleteWorkout_cascade [of "Some ''u1''" "''w1''" example_store empty_store "Some ''u1''"
        "Some ''u1''" example_requests "example_page (utf16 ''Legs'') [] 3 10 60"
        "[(Some ''u1'', DeleteWorkout ''w1'')]" empty_store] d f g
    by simp
qed

section \<open>Expanding a workout\<close>

text \<open>
  Claim C10. Toggling \<open>i\<close> keeps the length of the list, every workout whose id is
  not \<open>i\<close>, and the id, name, date, notes and exercises of every workout; a workout
  whose id is \<open>i\<close> gets the negation of its expanded flag. Toggling \<open>i\<close> twice
  gives the original list back, for every list that the history page can hold, and more
  generally for every list in which each workout with id \<open>i\<close> has its expanded flag
  present.
\<close>

theorem toggleWorkout_flips_matching:
  "length (toggleWorkout i ws) = length ws \<and>
   (\<forall>k < length ws.
      h_id (toggleWorkout i ws ! k) = h_id (ws ! k) \<and>
      h_name (toggleWorkout i ws ! k) = h_name (ws ! k) \<and>
      h_date (toggleWorkout i ws ! k) = h_date (ws ! k) \<and>
      h_notes (toggleWorkout i ws ! k) = h_notes (ws ! k) \<and>
      h_exercises (toggleWorkout i ws ! k) = h_exercises (ws ! k) \<and>
      (h_id (ws ! k) = i \<longrightarrow>
         h_expanded (toggleWorkout i ws ! k) = Some (\<not> truthy (h_expanded (ws ! k)))) \<and>
      (h_id (ws ! k) \<noteq> i \<longrightarrow> toggleWorkout i ws ! k = ws ! k)) \<and>
   (history_state ws \<longrightarrow> toggleWorkout i (toggleWorkout i ws) = ws) \<and>
   ((\<forall>w \<in> set ws. h_id w = i \<longrightarrow> h_expanded w \<noteq> None) \<longrightarrow>
      toggleWorkout i (toggleWorkout i ws) = ws)"
proof -
  have "toggleWorkout i (toggleWorkout i ws) = ws" if "history_state ws"
    using history_state_flags [OF that] by (intro toggleWorkout_twice) blast
  then show ?thesis
    using toggleWorkout_twice [of ws i]
    by (auto simp: toggleWorkout_length toggleWorkout_nth)
qed

text \<open>The list loaded from a store with one workout, toggled once and twice.\<close>

theorem toggleWorkout_flips_matching_witness:
  "history_state example_history \<and>
   map h_expanded (toggleWorkout ''w1'' example_history) = [Some True] \<and>
   toggleWorkout ''w1'' (toggleWorkout ''w1'' example_history) = example_history"
proof -
  have "fetchWorkouts_History (Some ''u1'') None (\<lambda>i. False) example_store = Inr example_history"
    by code_simp
  then have h: "history_state example_history"
    by (rule history_state.fetched)
  have t: "map h_expanded (toggleWorkout ''w1'' example_history) = [Some True]"
    by (simp add: toggleWorkout_def example_history_def truthy_def)
  show ?thesis
    using toggleWorkout_flips_matching [of "''w1''" example_history] h t
    by simp
qed

end
